theory Spec2Isabelle
  imports Complex_Main "HOL-Library.AList"
begin

section \<open>Data model\<close>

text \<open>
  The record \<open>rp.AppTeamInfo_Member\<close> as the two structures read it. \<open>steamId\<close> is a
  string (\<open>types.SteamId\<close>), the coordinates are numbers compared with \<open>!==\<close> only
  (finite numbers, so \<open>!==\<close> is inequality), \<open>spawnTime\<close> and \<open>deathTime\<close> are unix seconds.
\<close>

record AppTeamInfo_Member =
  steamId :: string
  name :: string
  x :: real
  y :: real
  isOnline :: bool
  spawnTime :: int
  isAlive :: bool
  deathTime :: int

text \<open>
  Class \<open>RustPlusTeamInfoMember\<close>. A \<open>Date | null\<close> is the millisecond reading of the
  clock, or \<open>None\<close>. The field \<open>rpInstance\<close> is a handle that no method of the class
  reads or writes after construction; it is left out.
\<close>

record RustPlusTeamInfoMember =
  appTeamInfoMember :: AppTeamInfo_Member
  lastMovementDate :: "int option"
  wentOfflineDate :: "int option"
  wasAfk :: bool

definition newTeamInfoMember :: "AppTeamInfo_Member \<Rightarrow> RustPlusTeamInfoMember" where
  "newTeamInfoMember rec =
     \<lparr>appTeamInfoMember = rec, lastMovementDate = None, wentOfflineDate = None, wasAfk = False\<rparr>"

section \<open>Member: change predicates\<close>

definition isSteamIdChanged :: "RustPlusTeamInfoMember \<Rightarrow> AppTeamInfo_Member \<Rightarrow> bool" where
  "isSteamIdChanged m inc = (steamId (appTeamInfoMember m) \<noteq> steamId inc)"

definition isNameChanged :: "RustPlusTeamInfoMember \<Rightarrow> AppTeamInfo_Member \<Rightarrow> bool" where
  "isNameChanged m inc = (name (appTeamInfoMember m) \<noteq> name inc)"

definition isXChanged :: "RustPlusTeamInfoMember \<Rightarrow> AppTeamInfo_Member \<Rightarrow> bool" where
  "isXChanged m inc = (x (appTeamInfoMember m) \<noteq> x inc)"

definition isYChanged :: "RustPlusTeamInfoMember \<Rightarrow> AppTeamInfo_Member \<Rightarrow> bool" where
  "isYChanged m inc = (y (appTeamInfoMember m) \<noteq> y inc)"

definition isOnlineChanged :: "RustPlusTeamInfoMember \<Rightarrow> AppTeamInfo_Member \<Rightarrow> bool" where
  "isOnlineChanged m inc = (isOnline (appTeamInfoMember m) \<noteq> isOnline inc)"

definition isSpawnTimeChanged :: "RustPlusTeamInfoMember \<Rightarrow> AppTeamInfo_Member \<Rightarrow> bool" where
  "isSpawnTimeChanged m inc = (spawnTime (appTeamInfoMember m) \<noteq> spawnTime inc)"

definition isAliveChanged :: "RustPlusTeamInfoMember \<Rightarrow> AppTeamInfo_Member \<Rightarrow> bool" where
  "isAliveChanged m inc = (isAlive (appTeamInfoMember m) \<noteq> isAlive inc)"

definition isDeathTimeChanged :: "RustPlusTeamInfoMember \<Rightarrow> AppTeamInfo_Member \<Rightarrow> bool" where
  "isDeathTimeChanged m inc = (deathTime (appTeamInfoMember m) \<noteq> deathTime inc)"

definition isGoneOnline :: "RustPlusTeamInfoMember \<Rightarrow> AppTeamInfo_Member \<Rightarrow> bool" where
  "isGoneOnline m inc = (isOnline (appTeamInfoMember m) = False \<and> isOnline inc = True)"

definition isGoneOffline :: "RustPlusTeamInfoMember \<Rightarrow> AppTeamInfo_Member \<Rightarrow> bool" where
  "isGoneOffline m inc = (isOnline (appTeamInfoMember m) = True \<and> isOnline inc = False)"

definition isGoneAlive :: "RustPlusTeamInfoMember \<Rightarrow> AppTeamInfo_Member \<Rightarrow> bool" where
  "isGoneAlive m inc = (isAlive (appTeamInfoMember m) = False \<and> isAlive inc = True)"

definition isGoneDead :: "RustPlusTeamInfoMember \<Rightarrow> AppTeamInfo_Member \<Rightarrow> bool" where
  "isGoneDead m inc =
     ((isAlive (appTeamInfoMember m) = True \<and> isAlive inc = False) \<or> isDeathTimeChanged m inc)"

definition isMoved :: "RustPlusTeamInfoMember \<Rightarrow> AppTeamInfo_Member \<Rightarrow> bool" where
  "isMoved m inc = (isXChanged m inc \<or> isYChanged m inc)"

definition isGoneAfk :: "RustPlusTeamInfoMember \<Rightarrow> AppTeamInfo_Member \<Rightarrow> bool" where
  "isGoneAfk m inc = (\<not> wasAfk m \<and> \<not> isMoved m inc \<and> isOnline (appTeamInfoMember m))"

section \<open>Member: update\<close>

text \<open>
  \<open>updateTeamInfoMember\<close>, statement by statement. Every \<open>new Date()\<close> of one call reads
  the same clock value \<open>now\<close> (milliseconds).
\<close>

definition updateTeamInfoMember ::
  "int \<Rightarrow> RustPlusTeamInfoMember \<Rightarrow> AppTeamInfo_Member \<Rightarrow> RustPlusTeamInfoMember" where
  "updateTeamInfoMember now m inc =
     (let m1 = (if isGoneOffline m inc then m\<lparr>wentOfflineDate := Some now\<rparr> else m);
          m2 = (if isGoneOnline m1 inc
                then m1\<lparr>lastMovementDate := Some now, wasAfk := False\<rparr> else m1);
          m3 = (if isMoved m2 inc
                then m2\<lparr>lastMovementDate := Some now, wasAfk := False\<rparr>
                else if \<not> isOnline (appTeamInfoMember m2) \<and> \<not> isGoneOnline m2 inc
                     then m2\<lparr>wasAfk := False\<rparr> else m2)
      in m3\<lparr>appTeamInfoMember := inc\<rparr>)"

section \<open>Member: time queries\<close>

text \<open>
  \<open>constants.AFK_TIME_SECONDS\<close> is declared in \<open>utils/constants\<close>; the queries take it
  as the parameter \<open>afk_time_seconds\<close>. \<open>Date.now()\<close> and \<open>getTime()\<close> are milliseconds.
\<close>

definition isAfk :: "real \<Rightarrow> int \<Rightarrow> RustPlusTeamInfoMember \<Rightarrow> bool" where
  "isAfk afk_time_seconds now m =
     (case lastMovementDate m of
        None \<Rightarrow> False
      | Some d \<Rightarrow> real_of_int (now - d) \<ge> afk_time_seconds)"

definition getAfkSeconds :: "int \<Rightarrow> RustPlusTeamInfoMember \<Rightarrow> real" where
  "getAfkSeconds now m =
     (case lastMovementDate m of
        None \<Rightarrow> 0
      | Some d \<Rightarrow> real_of_int (now - d) / 1000)"

text \<open>
  \<open>secondsToFullScale\<close> (from \<open>utils/timer\<close>) formats a number of seconds; it is the
  parameter \<open>fmt\<close>, and \<open>getOfflineSeconds\<close> is the number handed to it.
\<close>

definition getOfflineSeconds :: "int \<Rightarrow> RustPlusTeamInfoMember \<Rightarrow> real option" where
  "getOfflineSeconds now m =
     (case wentOfflineDate m of
        None \<Rightarrow> None
      | Some d \<Rightarrow> Some (real_of_int (now - d) / 1000))"

definition getOfflineTime :: "(real \<Rightarrow> string) \<Rightarrow> int \<Rightarrow> RustPlusTeamInfoMember \<Rightarrow> string option" where
  "getOfflineTime fmt now m = map_option fmt (getOfflineSeconds now m)"

section \<open>Roster\<close>

text \<open>
  \<open>rp.AppTeamInfo\<close> with the two fields the roster reads.
\<close>

record AppTeamInfo =
  leaderSteamId :: string
  members :: "AppTeamInfo_Member list"

text \<open>
  Class \<open>RustPlusTeamInfo\<close>. The \<open>Map\<close> from steam id to member object is an association
  list in insertion order, which is the order \<open>Map.values()\<close> iterates in:
  \<open>AList.update\<close> replaces the value of a present key in place and appends an absent one
  (\<open>Map.set\<close>), \<open>AList.delete\<close> drops a key (\<open>Map.delete\<close>), \<open>map_of\<close> looks a key up.
\<close>

record RustPlusTeamInfo =
  appTeamInfo :: AppTeamInfo
  members :: "(string \<times> RustPlusTeamInfoMember) list"
  allOnline :: bool
  allOffline :: bool

definition newTeamInfo :: "AppTeamInfo \<Rightarrow> RustPlusTeamInfo" where
  "newTeamInfo ati = \<lparr>appTeamInfo = ati, members = [], allOnline = False, allOffline = False\<rparr>"

definition isLeaderSteamIdChanged :: "RustPlusTeamInfo \<Rightarrow> AppTeamInfo \<Rightarrow> bool" where
  "isLeaderSteamIdChanged r ati = (leaderSteamId (appTeamInfo r) \<noteq> leaderSteamId ati)"

definition isPlayerInTeam :: "RustPlusTeamInfo \<Rightarrow> string \<Rightarrow> bool" where
  "isPlayerInTeam r sid = (map_of (RustPlusTeamInfo.members r) sid \<noteq> None)"

definition getMember :: "RustPlusTeamInfo \<Rightarrow> string \<Rightarrow> RustPlusTeamInfoMember option" where
  "getMember r sid = map_of (RustPlusTeamInfo.members r) sid"

definition addMember :: "RustPlusTeamInfo \<Rightarrow> AppTeamInfo_Member \<Rightarrow> RustPlusTeamInfo" where
  "addMember r rec =
     (if isPlayerInTeam r (steamId rec) then r
      else r\<lparr>RustPlusTeamInfo.members :=
                AList.update (steamId rec) (newTeamInfoMember rec) (RustPlusTeamInfo.members r)\<rparr>)"

definition removeMember :: "RustPlusTeamInfo \<Rightarrow> string \<Rightarrow> RustPlusTeamInfo" where
  "removeMember r sid =
     r\<lparr>RustPlusTeamInfo.members := AList.delete sid (RustPlusTeamInfo.members r)\<rparr>"

text \<open>
  \<open>appTeamInfo.members.find(m => m.steamId === sid)\<close> used as a condition: the found
  object is truthy, \<open>undefined\<close> is not.
\<close>

definition findMember :: "AppTeamInfo \<Rightarrow> string \<Rightarrow> AppTeamInfo_Member option" where
  "findMember ati sid = List.find (\<lambda>a. steamId a = sid) (AppTeamInfo.members ati)"

definition getNewMembers :: "RustPlusTeamInfo \<Rightarrow> AppTeamInfo \<Rightarrow> AppTeamInfo_Member list" where
  "getNewMembers r ati =
     filter (\<lambda>a. \<not> isPlayerInTeam r (steamId a)) (AppTeamInfo.members ati)"

definition getLeftMembers :: "RustPlusTeamInfo \<Rightarrow> AppTeamInfo \<Rightarrow> AppTeamInfo_Member list" where
  "getLeftMembers r ati =
     map appTeamInfoMember
       (filter (\<lambda>m. findMember ati (steamId (appTeamInfoMember m)) = None)
          (map snd (RustPlusTeamInfo.members r)))"

text \<open>
  \<open>getReminingMembers\<close> pushes \<open>member.appTeamInfoMember\<close>, the record the roster has
  stored, for every stored member that the incoming team info lists.
\<close>

definition getReminingMembers :: "RustPlusTeamInfo \<Rightarrow> AppTeamInfo \<Rightarrow> AppTeamInfo_Member list" where
  "getReminingMembers r ati =
     map appTeamInfoMember
       (filter (\<lambda>m. findMember ati (steamId (appTeamInfoMember m)) \<noteq> None)
          (map snd (RustPlusTeamInfo.members r)))"

text \<open>
  The body of the third loop of \<open>updateTeamInfo\<close>: \<open>getMember\<close>, then
  \<open>updateTeamInfoMember\<close> on the object found, which the map keeps under the same key.
\<close>

definition updateRemaining :: "int \<Rightarrow> RustPlusTeamInfo \<Rightarrow> AppTeamInfo_Member \<Rightarrow> RustPlusTeamInfo" where
  "updateRemaining now r rec =
     (case getMember r (steamId rec) of
        None \<Rightarrow> r
      | Some tm \<Rightarrow>
          r\<lparr>RustPlusTeamInfo.members :=
               AList.update (steamId rec) (updateTeamInfoMember now tm rec)
                 (RustPlusTeamInfo.members r)\<rparr>)"

definition aggregateStep :: "RustPlusTeamInfo \<Rightarrow> RustPlusTeamInfoMember \<Rightarrow> RustPlusTeamInfo" where
  "aggregateStep r m =
     (let r1 = r\<lparr>allOnline := (allOnline r \<and> isOnline (appTeamInfoMember m))\<rparr>
      in r1\<lparr>allOffline := (allOffline r1 \<and> \<not> isOnline (appTeamInfoMember m))\<rparr>)"

text \<open>
  \<open>updateTeamInfo\<close>: each \<open>for ... of\<close> iterates over the array that its \<open>get...Members\<close>
  call returned, computed on the roster as the loops before it left it. The leader check
  has an empty body. The chat colour assigned to a new member is written to the guild
  instance, an object outside the roster, and is not part of this state.
\<close>

definition updateTeamInfo :: "int \<Rightarrow> RustPlusTeamInfo \<Rightarrow> AppTeamInfo \<Rightarrow> RustPlusTeamInfo" where
  "updateTeamInfo now r ati =
     (let r1 = foldl addMember r (getNewMembers r ati);
          r2 = foldl (\<lambda>t rec. removeMember t (steamId rec)) r1 (getLeftMembers r1 ati);
          r3 = foldl (updateRemaining now) r2 (getReminingMembers r2 ati);
          r4 = foldl aggregateStep (r3\<lparr>allOnline := True, allOffline := True\<rparr>)
                 (map snd (RustPlusTeamInfo.members r3))
      in r4\<lparr>appTeamInfo := ati\<rparr>)"

section \<open>Reachable states\<close>

text \<open>
  A member object is created by the constructor and changed by \<open>updateTeamInfoMember\<close>
  only.
\<close>

inductive reachable_member :: "RustPlusTeamInfoMember \<Rightarrow> bool" where
  created: "reachable_member (newTeamInfoMember rec)"
| updated: "reachable_member m \<Longrightarrow> reachable_member (updateTeamInfoMember now m inc)"

text \<open>
  What a \<open>Map\<close> filled by \<open>addMember\<close> satisfies: keys are distinct, and every member is
  stored under the steam id of its record.
\<close>

definition roster_inv :: "RustPlusTeamInfo \<Rightarrow> bool" where
  "roster_inv r =
     (distinct (map fst (RustPlusTeamInfo.members r)) \<and>
      (\<forall>p \<in> set (RustPlusTeamInfo.members r). steamId (appTeamInfoMember (snd p)) = fst p))"

text \<open>
  The call that the third loop of \<open>updateTeamInfo\<close> makes on a listed member: the array
  it iterates over holds stored records, so the member is updated with its own record.
\<close>

definition selfUpdate :: "int \<Rightarrow> RustPlusTeamInfoMember \<Rightarrow> RustPlusTeamInfoMember" where
  "selfUpdate now m = updateTeamInfoMember now m (appTeamInfoMember m)"

section \<open>Sample inputs\<close>

definition memA :: AppTeamInfo_Member where
  "memA = \<lparr>steamId = ''A'', name = ''Alice'', x = 0, y = 0, isOnline = True,
            spawnTime = 1000, isAlive = True, deathTime = 0\<rparr>"

definition memB :: AppTeamInfo_Member where
  "memB = \<lparr>steamId = ''B'', name = ''Bob'', x = 10, y = 20, isOnline = False,
            spawnTime = 900, isAlive = True, deathTime = 0\<rparr>"

definition teamOf :: "AppTeamInfo_Member list \<Rightarrow> AppTeamInfo" where
  "teamOf ms = \<lparr>leaderSteamId = ''A'', members = ms\<rparr>"

definition emptyRoster :: RustPlusTeamInfo where
  "emptyRoster = newTeamInfo (teamOf [])"

text \<open>The roster after a first ingest that lists member A alone, online at the origin.\<close>

definition rosterA :: RustPlusTeamInfo where
  "rosterA = updateTeamInfo 1000 emptyRoster (teamOf [memA])"

section \<open>Member: properties\<close>

lemmas change_defs =
  isXChanged_def isYChanged_def isDeathTimeChanged_def isMoved_def
  isGoneOnline_def isGoneOffline_def isGoneAlive_def isGoneDead_def isGoneAfk_def

lemmas member_defs = updateTeamInfoMember_def newTeamInfoMember_def Let_def

subsection \<open>Death classification\<close>

text \<open>
  C7. \<open>isGoneDead\<close> is true exactly when the stored member is alive and the incoming record
  is dead, or the incoming \<open>deathTime\<close> differs from the stored one; in particular a member
  that stays alive while its \<open>deathTime\<close> changes is classified as gone dead.
\<close>

theorem C7_isGoneDead_iff:
  "(isGoneDead m inc \<longleftrightarrow>
      (isAlive (appTeamInfoMember m) \<and> \<not> isAlive inc) \<or>
      deathTime inc \<noteq> deathTime (appTeamInfoMember m)) \<and>
   (isAlive (appTeamInfoMember m) \<and> isAlive inc \<and>
      deathTime inc \<noteq> deathTime (appTeamInfoMember m) \<longrightarrow> isGoneDead m inc)"
  by (auto simp: isGoneDead_def isDeathTimeChanged_def)

theorem C7_isGoneDead_iff_witness:
  "isAlive (appTeamInfoMember (newTeamInfoMember memA)) \<and> isAlive (memA\<lparr>deathTime := 5\<rparr>) \<and>
   deathTime (memA\<lparr>deathTime := 5\<rparr>) \<noteq> deathTime (appTeamInfoMember (newTeamInfoMember memA)) \<and>
   isGoneDead (newTeamInfoMember memA) (memA\<lparr>deathTime := 5\<rparr>)"
  using C7_isGoneDead_iff [of "newTeamInfoMember memA" "memA\<lparr>deathTime := 5\<rparr>"]
  by (simp add: memA_def newTeamInfoMember_def)

subsection \<open>The idle latch\<close>

lemma reachable_wasAfk: "reachable_member m \<Longrightarrow> \<not> wasAfk m"
  by (induction rule: reachable_member.induct) (simp_all add: member_defs)

text \<open>
  C10. \<open>wasAfk\<close> is false in every member state that the constructor and any sequence of
  \<open>updateTeamInfoMember\<close> calls can produce; hence in such a state \<open>isGoneAfk\<close> is
  "not moved and the stored online flag is true".
\<close>

theorem C10_wasAfk_never_set:
  "reachable_member m \<Longrightarrow>
     wasAfk m = False \<and>
     isGoneAfk m inc = (\<not> isMoved m inc \<and> isOnline (appTeamInfoMember m))"
  by (simp add: reachable_wasAfk isGoneAfk_def)

theorem C10_wasAfk_never_set_witness:
  "reachable_member (updateTeamInfoMember 2000 (newTeamInfoMember memA) (memA\<lparr>x := 3\<rparr>)) \<and>
   wasAfk (updateTeamInfoMember 2000 (newTeamInfoMember memA) (memA\<lparr>x := 3\<rparr>)) = False \<and>
   isGoneAfk (updateTeamInfoMember 2000 (newTeamInfoMember memA) (memA\<lparr>x := 3\<rparr>)) (memA\<lparr>x := 3\<rparr>)"
proof -
  have r: "reachable_member (updateTeamInfoMember 2000 (newTeamInfoMember memA) (memA\<lparr>x := 3\<rparr>))"
    by (rule updated) (rule created)
  from C10_wasAfk_never_set [OF r, of "memA\<lparr>x := 3\<rparr>"] r show ?thesis
    by (simp add: member_defs memA_def change_defs)
qed

lemma isGoneAfk_while_idle:
  "reachable_member m \<Longrightarrow> isOnline (appTeamInfoMember m) \<Longrightarrow> \<not> isMoved m inc \<Longrightarrow>
     isGoneAfk m inc"
  by (simp add: reachable_wasAfk isGoneAfk_def)

text \<open>
  C5. The claim: while a member stays online at an unchanged position, \<open>isGoneAfk\<close> is true
  on exactly one ingest and false afterwards, because \<open>wasAfk\<close> has been set. In the code
  no statement sets \<open>wasAfk\<close> to true: for member A, created online and updated twice with
  the same record, \<open>isGoneAfk\<close> is true before each of the updates and after the last one,
  and \<open>wasAfk\<close> is still false.
\<close>

theorem C5_isGoneAfk_every_ingest:
  "isGoneAfk (newTeamInfoMember memA) memA \<and>
   isGoneAfk (updateTeamInfoMember 400000 (newTeamInfoMember memA) memA) memA \<and>
   isGoneAfk (updateTeamInfoMember 800000
                (updateTeamInfoMember 400000 (newTeamInfoMember memA) memA) memA) memA \<and>
   wasAfk (updateTeamInfoMember 800000
             (updateTeamInfoMember 400000 (newTeamInfoMember memA) memA) memA) = False"
  by (simp add: member_defs memA_def change_defs)

subsection \<open>Movement time\<close>

theorem C6_lastMovementDate_offline_counterexample:
  "\<not> isOnline (appTeamInfoMember (newTeamInfoMember memB)) \<and> \<not> isOnline (memB\<lparr>x := 11\<rparr>) \<and>
   lastMovementDate (newTeamInfoMember memB) = None \<and>
   lastMovementDate (updateTeamInfoMember 5000 (newTeamInfoMember memB) (memB\<lparr>x := 11\<rparr>)) = Some 5000"
  by (simp add: member_defs memB_def change_defs)

text \<open>
  C6, amended. For a member stored offline and an incoming record that is offline too,
  \<open>updateTeamInfoMember\<close> sets \<open>lastMovementDate\<close> to the clock reading exactly when the
  incoming position differs from the stored one (\<open>isMoved\<close>), and leaves it as it was
  otherwise. The statement above shows such a member that moved while offline.
\<close>

theorem C6_lastMovementDate_offline:
  "\<not> isOnline (appTeamInfoMember m) \<Longrightarrow> \<not> isOnline inc \<Longrightarrow>
     lastMovementDate (updateTeamInfoMember now m inc) =
       (if isMoved m inc then Some now else lastMovementDate m)"
  by (simp add: updateTeamInfoMember_def Let_def change_defs)

theorem C6_lastMovementDate_offline_witness:
  "\<not> isOnline (appTeamInfoMember (newTeamInfoMember memB)) \<and> \<not> isOnline (memB\<lparr>y := 21\<rparr>) \<and>
   lastMovementDate (updateTeamInfoMember 7000 (newTeamInfoMember memB) (memB\<lparr>y := 21\<rparr>)) = Some 7000 \<and>
   lastMovementDate (updateTeamInfoMember 7000 (newTeamInfoMember memB) memB) = None"
  using C6_lastMovementDate_offline [of "newTeamInfoMember memB" "memB\<lparr>y := 21\<rparr>" 7000]
        C6_lastMovementDate_offline [of "newTeamInfoMember memB" memB 7000]
  by (simp add: newTeamInfoMember_def memB_def change_defs)

subsection \<open>Idle time\<close>

lemma isAfk_milliseconds:
  "isAfk t now m \<longleftrightarrow> lastMovementDate m \<noteq> None \<and> getAfkSeconds now m * 1000 \<ge> t"
proof (cases "lastMovementDate m")
  case None
  then show ?thesis by (simp add: isAfk_def)
next
  case (Some d)
  have "getAfkSeconds now m * 1000 = real_of_int (now - d)"
    using Some by (simp add: getAfkSeconds_def)
  then show ?thesis using Some by (simp add: isAfk_def)
qed

lemma isAfk_before_threshold:
  assumes "1 \<le> t" and "lastMovementDate m = Some d"
  shows "isAfk t (d + \<lceil>t\<rceil>) m \<and> getAfkSeconds (d + \<lceil>t\<rceil>) m < t"
proof -
  have "real_of_int \<lceil>t\<rceil> < t + 1" by linarith
  with assms(1) have "real_of_int \<lceil>t\<rceil> / 1000 < t" by linarith
  moreover have "t \<le> real_of_int \<lceil>t\<rceil>" by linarith
  ultimately show ?thesis
    using assms(2) by (simp add: isAfk_def getAfkSeconds_def)
qed

text \<open>
  C9. The claim: \<open>isAfk\<close> agrees with \<open>getAfkSeconds \<ge> AFK_TIME_SECONDS\<close> at the same clock
  reading. \<open>isAfk\<close> compares the elapsed milliseconds with the constant, \<open>getAfkSeconds\<close>
  divides them by 1000: a member that moved at clock 0, asked at clock 1000 with a
  threshold of 300, is idle for \<open>isAfk\<close> after one second, and \<open>getAfkSeconds\<close> is 1.
  For every threshold of at least 1 there is such a clock reading (\<open>isAfk_before_threshold\<close>).
\<close>

theorem C9_isAfk_unit_mismatch:
  "lastMovementDate (updateTeamInfoMember 0 (newTeamInfoMember memA) (memA\<lparr>x := 1\<rparr>)) = Some 0 \<and>
   isAfk 300 1000 (updateTeamInfoMember 0 (newTeamInfoMember memA) (memA\<lparr>x := 1\<rparr>)) \<and>
   getAfkSeconds 1000 (updateTeamInfoMember 0 (newTeamInfoMember memA) (memA\<lparr>x := 1\<rparr>)) = 1 \<and>
   \<not> (getAfkSeconds 1000 (updateTeamInfoMember 0 (newTeamInfoMember memA) (memA\<lparr>x := 1\<rparr>)) \<ge> 300)"
  by (simp add: isAfk_def getAfkSeconds_def member_defs memA_def change_defs)

section \<open>Roster: the loops of the ingest\<close>

lemma selfUpdate_eq:
  "selfUpdate now m = m\<lparr>wasAfk := (wasAfk m \<and> isOnline (appTeamInfoMember m))\<rparr>"
  by (cases "isOnline (appTeamInfoMember m)")
     (simp_all add: selfUpdate_def updateTeamInfoMember_def Let_def change_defs)

lemma selfUpdate_idem: "selfUpdate t (selfUpdate now m) = selfUpdate now m"
  by (simp add: selfUpdate_eq)

lemma selfUpdate_new: "selfUpdate now (newTeamInfoMember a) = newTeamInfoMember a"
  by (simp add: selfUpdate_eq newTeamInfoMember_def)

lemma isPlayerInTeam_iff: "isPlayerInTeam r k \<longleftrightarrow> k \<in> fst ` set (RustPlusTeamInfo.members r)"
  by (simp add: isPlayerInTeam_def map_of_eq_None_iff)

lemma isPlayerInTeam_getMember: "isPlayerInTeam r k \<longleftrightarrow> getMember r k \<noteq> None"
  by (simp add: isPlayerInTeam_def getMember_def)

lemma findMember_None_iff:
  "findMember ati k = None \<longleftrightarrow> k \<notin> steamId ` set (AppTeamInfo.members ati)"
  by (auto simp: findMember_def find_None_iff)

subsection \<open>First loop: new members\<close>

lemma getMember_addMember:
  "getMember (addMember r a) k =
     (case getMember r k of
        Some m \<Rightarrow> Some m
      | None \<Rightarrow> if steamId a = k then Some (newTeamInfoMember a) else None)"
  by (auto simp: addMember_def getMember_def isPlayerInTeam_def update_conv' split: option.splits)

lemma update_absent: "k \<notin> fst ` set al \<Longrightarrow> AList.update k v al = al @ [(k, v)]"
  by (induction al) auto

lemma update_present:
  "k \<notin> fst ` set pre \<Longrightarrow> AList.update k v (pre @ (k, w) # suf) = pre @ (k, v) # suf"
  by (induction pre) auto

lemma members_addMember:
  "RustPlusTeamInfo.members (addMember r a) =
     (if isPlayerInTeam r (steamId a) then RustPlusTeamInfo.members r
      else RustPlusTeamInfo.members r @ [(steamId a, newTeamInfoMember a)])"
  by (simp add: addMember_def update_absent isPlayerInTeam_iff)

lemma roster_inv_addMember: "roster_inv r \<Longrightarrow> roster_inv (addMember r a)"
  by (auto simp: roster_inv_def members_addMember isPlayerInTeam_iff newTeamInfoMember_def)

lemma roster_inv_foldl_addMember: "roster_inv r \<Longrightarrow> roster_inv (foldl addMember r as)"
  by (induction as arbitrary: r) (simp_all add: roster_inv_addMember)

lemma getMember_foldl_addMember:
  "getMember (foldl addMember r as) k =
     (case getMember r k of
        Some m \<Rightarrow> Some m
      | None \<Rightarrow> map_option newTeamInfoMember (List.find (\<lambda>a. steamId a = k) as))"
  by (induction as arbitrary: r) (auto simp: getMember_addMember split: option.splits)

lemma find_filter_other:
  "\<not> Q k \<Longrightarrow>
     List.find (\<lambda>a. steamId a = k) (filter (\<lambda>a. \<not> Q (steamId a)) as) =
     List.find (\<lambda>a. steamId a = k) as"
  by (induction as) auto

lemma find_getNewMembers:
  "\<not> isPlayerInTeam r k \<Longrightarrow>
     List.find (\<lambda>a. steamId a = k) (getNewMembers r ati) = findMember ati k"
  by (simp add: getNewMembers_def findMember_def find_filter_other)

subsection \<open>Second loop: members that left\<close>

lemma members_foldl_removeMember:
  "RustPlusTeamInfo.members (foldl (\<lambda>t rec. removeMember t (steamId rec)) r recs) =
     filter (\<lambda>p. fst p \<notin> steamId ` set recs) (RustPlusTeamInfo.members r)"
proof (induction recs arbitrary: r)
  case Nil
  show ?case by simp
next
  case (Cons a recs)
  have "RustPlusTeamInfo.members (removeMember r (steamId a)) =
          filter (\<lambda>p. fst p \<noteq> steamId a) (RustPlusTeamInfo.members r)"
    by (simp add: removeMember_def AList.delete_eq case_prod_unfold eq_commute)
  with Cons.IH [of "removeMember r (steamId a)"] show ?case
    by (simp add: conj_commute)
qed

lemma left_ids:
  "roster_inv r \<Longrightarrow> p \<in> set (RustPlusTeamInfo.members r) \<Longrightarrow>
     fst p \<in> steamId ` set (getLeftMembers r ati) \<longleftrightarrow> findMember ati (fst p) = None"
  by (force simp: roster_inv_def getLeftMembers_def)

lemma members_after_left:
  assumes "roster_inv r"
  shows "RustPlusTeamInfo.members
           (foldl (\<lambda>t rec. removeMember t (steamId rec)) r (getLeftMembers r ati)) =
         filter (\<lambda>p. findMember ati (fst p) \<noteq> None) (RustPlusTeamInfo.members r)"
  unfolding members_foldl_removeMember
  by (rule filter_cong) (simp_all add: left_ids [OF assms])

lemma roster_inv_filter:
  "roster_inv r \<Longrightarrow> RustPlusTeamInfo.members t = filter Q (RustPlusTeamInfo.members r) \<Longrightarrow>
     roster_inv t"
  by (simp add: roster_inv_def distinct_map_filter)

subsection \<open>Third loop: remaining members\<close>

lemma foldl_updateRemaining:
  assumes "RustPlusTeamInfo.members r = pre @ suf"
    and "distinct (map fst (pre @ suf))"
    and "\<forall>p \<in> set suf. steamId (appTeamInfoMember (snd p)) = fst p"
  shows "RustPlusTeamInfo.members
           (foldl (updateRemaining now) r (map (\<lambda>p. appTeamInfoMember (snd p)) suf)) =
         pre @ map (\<lambda>p. (fst p, selfUpdate now (snd p))) suf"
  using assms
proof (induction suf arbitrary: r pre)
  case Nil
  then show ?case by simp
next
  case (Cons p suf)
  obtain k m where p: "p = (k, m)" by (cases p)
  from Cons.prems p have k: "steamId (appTeamInfoMember m) = k" and notin: "k \<notin> fst ` set pre"
    by auto
  have look: "getMember r k = Some m"
    using Cons.prems(1) notin p
    by (simp add: getMember_def map_add_Some_iff map_of_eq_None_iff)
  have step: "RustPlusTeamInfo.members (updateRemaining now r (appTeamInfoMember m)) =
                (pre @ [(k, selfUpdate now m)]) @ suf"
    using Cons.prems(1) p notin
    by (simp add: updateRemaining_def k look update_present selfUpdate_def)
  have "RustPlusTeamInfo.members
          (foldl (updateRemaining now) (updateRemaining now r (appTeamInfoMember m))
             (map (\<lambda>p. appTeamInfoMember (snd p)) suf)) =
        (pre @ [(k, selfUpdate now m)]) @ map (\<lambda>p. (fst p, selfUpdate now (snd p))) suf"
    using Cons.prems p by (intro Cons.IH [OF step]) auto
  then show ?case by (simp add: p)
qed

lemma getReminingMembers_all:
  "\<forall>p \<in> set (RustPlusTeamInfo.members r). findMember ati (steamId (appTeamInfoMember (snd p))) \<noteq> None \<Longrightarrow>
     getReminingMembers r ati = map (\<lambda>p. appTeamInfoMember (snd p)) (RustPlusTeamInfo.members r)"
  by (simp add: getReminingMembers_def filter_map comp_def)

lemma members_after_remaining:
  assumes "roster_inv r"
    and "\<forall>p \<in> set (RustPlusTeamInfo.members r). findMember ati (fst p) \<noteq> None"
  shows "RustPlusTeamInfo.members (foldl (updateRemaining now) r (getReminingMembers r ati)) =
         map (\<lambda>p. (fst p, selfUpdate now (snd p))) (RustPlusTeamInfo.members r)"
proof -
  have all: "getReminingMembers r ati =
               map (\<lambda>p. appTeamInfoMember (snd p)) (RustPlusTeamInfo.members r)"
    using assms by (intro getReminingMembers_all) (simp add: roster_inv_def)
  show ?thesis
    unfolding all
    using foldl_updateRemaining [of r "[]" "RustPlusTeamInfo.members r" now] assms(1)
    by (simp add: roster_inv_def)
qed

subsection \<open>Aggregate flags\<close>

lemma foldl_aggregateStep:
  "foldl aggregateStep r ms =
     r\<lparr>allOnline := (allOnline r \<and> (\<forall>m \<in> set ms. isOnline (appTeamInfoMember m))),
       allOffline := (allOffline r \<and> (\<forall>m \<in> set ms. \<not> isOnline (appTeamInfoMember m)))\<rparr>"
proof (induction ms arbitrary: r)
  case Nil
  show ?case by simp
next
  case (Cons m ms)
  show ?case
    by (simp only: foldl_Cons Cons.IH) (simp add: aggregateStep_def Let_def conj_assoc)
qed


subsection \<open>The whole ingest\<close>

lemma members_updateTeamInfo_flags:
  "RustPlusTeamInfo.members (updateTeamInfo now r ati) =
     RustPlusTeamInfo.members
       (foldl (updateRemaining now)
          (foldl (\<lambda>t rec. removeMember t (steamId rec)) (foldl addMember r (getNewMembers r ati))
             (getLeftMembers (foldl addMember r (getNewMembers r ati)) ati))
          (getReminingMembers
             (foldl (\<lambda>t rec. removeMember t (steamId rec)) (foldl addMember r (getNewMembers r ati))
                (getLeftMembers (foldl addMember r (getNewMembers r ati)) ati)) ati))"
  by (simp add: updateTeamInfo_def Let_def foldl_aggregateStep)

lemma members_updateTeamInfo:
  assumes "roster_inv r"
  shows "RustPlusTeamInfo.members (updateTeamInfo now r ati) =
         map (\<lambda>p. (fst p, selfUpdate now (snd p)))
           (filter (\<lambda>p. findMember ati (fst p) \<noteq> None)
              (RustPlusTeamInfo.members (foldl addMember r (getNewMembers r ati))))"
proof -
  let ?r1 = "foldl addMember r (getNewMembers r ati)"
  let ?r2 = "foldl (\<lambda>t rec. removeMember t (steamId rec)) ?r1 (getLeftMembers ?r1 ati)"
  have inv1: "roster_inv ?r1" using assms by (rule roster_inv_foldl_addMember)
  have m2: "RustPlusTeamInfo.members ?r2 =
              filter (\<lambda>p. findMember ati (fst p) \<noteq> None) (RustPlusTeamInfo.members ?r1)"
    using inv1 by (rule members_after_left)
  have inv2: "roster_inv ?r2" using inv1 m2 by (rule roster_inv_filter)
  have listed: "\<forall>p \<in> set (RustPlusTeamInfo.members ?r2). findMember ati (fst p) \<noteq> None"
    by (simp add: m2)
  show ?thesis
    unfolding members_updateTeamInfo_flags
    by (simp only: members_after_remaining [OF inv2 listed] m2)
qed

lemma allOnline_updateTeamInfo:
  "allOnline (updateTeamInfo now r ati) \<longleftrightarrow>
     (\<forall>p \<in> set (RustPlusTeamInfo.members (updateTeamInfo now r ati)).
        isOnline (appTeamInfoMember (snd p)))"
  by (simp add: updateTeamInfo_def Let_def foldl_aggregateStep)

lemma allOffline_updateTeamInfo:
  "allOffline (updateTeamInfo now r ati) \<longleftrightarrow>
     (\<forall>p \<in> set (RustPlusTeamInfo.members (updateTeamInfo now r ati)).
        \<not> isOnline (appTeamInfoMember (snd p)))"
  by (simp add: updateTeamInfo_def Let_def foldl_aggregateStep)

lemma appTeamInfo_updateTeamInfo: "appTeamInfo (updateTeamInfo now r ati) = ati"
  by (simp add: updateTeamInfo_def Let_def)

lemma map_of_filter_key:
  "map_of (filter (\<lambda>p. Q (fst p)) al) k = (if Q k then map_of al k else None)"
  by (induction al) auto

lemma map_of_map_snd:
  "map_of (map (\<lambda>p. (fst p, f (snd p))) al) k = map_option f (map_of al k)"
  by (induction al) auto

lemma getMember_updateTeamInfo:
  assumes "roster_inv r"
  shows "getMember (updateTeamInfo now r ati) k =
         (if findMember ati k = None then None
          else case getMember r k of
                 Some m \<Rightarrow> Some (selfUpdate now m)
               | None \<Rightarrow> map_option newTeamInfoMember (findMember ati k))"
proof -
  have "getMember (updateTeamInfo now r ati) k =
          map_option (selfUpdate now)
            (if findMember ati k \<noteq> None
             then getMember (foldl addMember r (getNewMembers r ati)) k else None)"
    by (simp only: getMember_def members_updateTeamInfo [OF assms] map_of_map_snd
          map_of_filter_key [of "\<lambda>k. findMember ati k \<noteq> None"])
  also have "\<dots> =
         (if findMember ati k = None then None
          else case getMember r k of
                 Some m \<Rightarrow> Some (selfUpdate now m)
               | None \<Rightarrow> map_option newTeamInfoMember (findMember ati k))"
    by (auto simp: getMember_foldl_addMember find_getNewMembers isPlayerInTeam_getMember
          selfUpdate_new split: option.splits)
  finally show ?thesis .
qed

lemma roster_inv_updateTeamInfo:
  assumes "roster_inv r"
  shows "roster_inv (updateTeamInfo now r ati)"
proof -
  have "roster_inv (foldl addMember r (getNewMembers r ati))"
    using assms by (rule roster_inv_foldl_addMember)
  then show ?thesis
    unfolding roster_inv_def members_updateTeamInfo [OF assms]
    by (auto simp: distinct_map_filter comp_def selfUpdate_eq)
qed

lemma roster_inv_newTeamInfo: "roster_inv (newTeamInfo ati)"
  by (simp add: roster_inv_def newTeamInfo_def)

lemma isPlayerInTeam_updateTeamInfo:
  assumes "roster_inv r"
  shows "isPlayerInTeam (updateTeamInfo now r ati) k \<longleftrightarrow> k \<in> steamId ` set (AppTeamInfo.members ati)"
proof (cases "findMember ati k")
  case None
  then show ?thesis
    using findMember_None_iff [of ati k]
    by (simp add: isPlayerInTeam_getMember getMember_updateTeamInfo [OF assms])
next
  case (Some a)
  then have "k \<in> steamId ` set (AppTeamInfo.members ati)"
    using findMember_None_iff [of ati k] by simp
  then show ?thesis
    using Some
    by (simp add: isPlayerInTeam_getMember getMember_updateTeamInfo [OF assms] split: option.splits)
qed

section \<open>Roster: properties\<close>

lemmas roster_defs =
  updateTeamInfo_def getNewMembers_def getLeftMembers_def getReminingMembers_def
  addMember_def removeMember_def updateRemaining_def aggregateStep_def findMember_def
  isPlayerInTeam_def getMember_def newTeamInfo_def teamOf_def emptyRoster_def rosterA_def
  newTeamInfoMember_def updateTeamInfoMember_def Let_def

lemma roster_inv_emptyRoster: "roster_inv emptyRoster"
  unfolding emptyRoster_def by (rule roster_inv_newTeamInfo)

lemma roster_inv_rosterA: "roster_inv rosterA"
  unfolding rosterA_def by (rule roster_inv_updateTeamInfo) (rule roster_inv_emptyRoster)

subsection \<open>Membership\<close>

text \<open>
  C8. For a roster whose map is well formed (\<open>roster_inv\<close>: what the constructor
  establishes and every ingest preserves) and a team info whose steam ids are pairwise
  distinct, after \<open>updateTeamInfo\<close> the query \<open>isPlayerInTeam\<close> is true for exactly the
  steam ids that the team info lists: a newly listed id has been added, a stored id that
  is no longer listed has been removed.
\<close>

theorem C8_membership_after_ingest:
  assumes "roster_inv r" and "distinct (map steamId (AppTeamInfo.members ati))"
  shows "isPlayerInTeam (updateTeamInfo now r ati) k \<longleftrightarrow>
         k \<in> steamId ` set (AppTeamInfo.members ati)"
  using assms(1) by (rule isPlayerInTeam_updateTeamInfo)

theorem C8_membership_after_ingest_witness:
  "roster_inv rosterA \<and>
   distinct (map steamId (AppTeamInfo.members (teamOf [memB]))) \<and>
   isPlayerInTeam rosterA ''A'' \<and> \<not> isPlayerInTeam rosterA ''B'' \<and>
   isPlayerInTeam (updateTeamInfo 2000 rosterA (teamOf [memB])) ''B'' \<and>
   \<not> isPlayerInTeam (updateTeamInfo 2000 rosterA (teamOf [memB])) ''A''"
proof -
  have d: "distinct (map steamId (AppTeamInfo.members (teamOf [memB])))"
    by (simp add: teamOf_def)
  have before: "isPlayerInTeam rosterA ''A'' \<and> \<not> isPlayerInTeam rosterA ''B''"
    by (simp add: roster_defs memA_def change_defs)
  from C8_membership_after_ingest [OF roster_inv_rosterA d, of 2000 "''B''"]
       C8_membership_after_ingest [OF roster_inv_rosterA d, of 2000 "''A''"]
       roster_inv_rosterA d before
  show ?thesis by (simp add: teamOf_def memB_def)
qed

subsection \<open>Aggregate flags of an empty roster\<close>

theorem C3_empty_roster_flags_counterexample:
  "RustPlusTeamInfo.members (updateTeamInfo 2000 rosterA (teamOf [])) = [] \<and>
   \<not> (allOnline (updateTeamInfo 2000 rosterA (teamOf [])) = False \<and>
      allOffline (updateTeamInfo 2000 rosterA (teamOf [])) = False)"
  by (simp add: roster_defs memA_def change_defs)

text \<open>
  C3, amended. When the member map is empty after an ingest, the recomputed flags
  \<open>allOnline\<close> and \<open>allOffline\<close> are both true: each is set to true and then conjoined
  with one condition per stored member, of which there is none. The statement above is
  the roster that held member A, after a team info that lists nobody.
\<close>

theorem C3_empty_roster_flags:
  "RustPlusTeamInfo.members (updateTeamInfo now r ati) = [] \<Longrightarrow>
     allOnline (updateTeamInfo now r ati) \<and> allOffline (updateTeamInfo now r ati)"
  by (simp add: allOnline_updateTeamInfo allOffline_updateTeamInfo)

theorem C3_empty_roster_flags_witness:
  "RustPlusTeamInfo.members (updateTeamInfo 1000 emptyRoster (teamOf [])) = [] \<and>
   allOnline (updateTeamInfo 1000 emptyRoster (teamOf [])) \<and>
   allOffline (updateTeamInfo 1000 emptyRoster (teamOf []))"
proof -
  have e: "RustPlusTeamInfo.members (updateTeamInfo 1000 emptyRoster (teamOf [])) = []"
    by (simp add: roster_defs)
  from C3_empty_roster_flags [OF e] e show ?thesis by simp
qed

subsection \<open>Remaining members keep their stored record\<close>

lemma remaining_member_kept:
  assumes "roster_inv r" and "getMember r k = Some m" and "findMember ati k = Some inc"
  shows "getMember (updateTeamInfo now r ati) k =
         Some (m\<lparr>wasAfk := (wasAfk m \<and> isOnline (appTeamInfoMember m))\<rparr>)"
  using assms(2,3) by (simp add: getMember_updateTeamInfo [OF assms(1)] selfUpdate_eq)

text \<open>
  C1. The claim: after an ingest the stored record of every remaining member equals the
  incoming one. \<open>getReminingMembers\<close> returns the stored records, so the member is updated
  with the record it already has (\<open>remaining_member_kept\<close>): member A, stored at
  \<open>x = 0\<close>, still has \<open>x = 0\<close> after a team info that lists A at \<open>x = 5\<close>.
\<close>

theorem C1_stale_record:
  "map_option appTeamInfoMember
     (getMember (updateTeamInfo 2000 rosterA (teamOf [memA\<lparr>x := 5\<rparr>])) ''A'') = Some memA \<and>
   x memA = 0 \<and> x (memA\<lparr>x := 5\<rparr>) = 5 \<and> memA \<noteq> memA\<lparr>x := 5\<rparr>"
  by (simp add: roster_defs memA_def change_defs)

text \<open>
  C2. The claim: when the roster holds member A online and the next team info lists A as
  offline, the ingest sets \<open>wentOfflineDate\<close>, and \<open>getOfflineTime\<close> then returns a
  duration. The member is updated with its stored record, for which \<open>isGoneOffline\<close> is
  false: after the ingest A is stored as it was, \<open>wentOfflineDate\<close> is unset and
  \<open>getOfflineTime\<close> returns null, although \<open>isGoneOffline\<close> holds between the stored
  member and the incoming record.
\<close>

theorem C2_went_offline_missed:
  "isOnline (appTeamInfoMember (newTeamInfoMember memA)) \<and>
   getMember rosterA ''A'' = Some (newTeamInfoMember memA) \<and>
   isGoneOffline (newTeamInfoMember memA) (memA\<lparr>isOnline := False\<rparr>) \<and>
   getMember (updateTeamInfo 2000 rosterA (teamOf [memA\<lparr>isOnline := False\<rparr>])) ''A'' =
     Some (newTeamInfoMember memA) \<and>
   wentOfflineDate (newTeamInfoMember memA) = None \<and>
   getOfflineTime fmt 9000 (newTeamInfoMember memA) = None"
  by (simp add: roster_defs memA_def change_defs getOfflineTime_def getOfflineSeconds_def)

subsection \<open>The same team info twice\<close>

lemma updateTeamInfo_twice:
  assumes "roster_inv r"
  shows "updateTeamInfo t (updateTeamInfo now r ati) ati = updateTeamInfo now r ati"
proof -
  let ?r1 = "updateTeamInfo now r ati"
  have inv1: "roster_inv ?r1" using assms by (rule roster_inv_updateTeamInfo)
  have new: "getNewMembers ?r1 ati = []"
    by (simp add: getNewMembers_def isPlayerInTeam_updateTeamInfo [OF assms])
  have listed: "findMember ati (fst p) \<noteq> None" if "p \<in> set (RustPlusTeamInfo.members ?r1)" for p
  proof -
    from that have "isPlayerInTeam ?r1 (fst p)" by (auto simp: isPlayerInTeam_iff)
    then show ?thesis
      by (simp add: isPlayerInTeam_updateTeamInfo [OF assms] findMember_None_iff)
  qed
  have fixed: "selfUpdate t (snd p) = snd p" if "p \<in> set (RustPlusTeamInfo.members ?r1)" for p
    using that unfolding members_updateTeamInfo [OF assms]
    by (auto simp: selfUpdate_idem)
  have "RustPlusTeamInfo.members (updateTeamInfo t ?r1 ati) =
          map (\<lambda>p. (fst p, selfUpdate t (snd p))) (RustPlusTeamInfo.members ?r1)"
    unfolding members_updateTeamInfo [OF inv1] new using listed by simp
  also have "\<dots> = map (\<lambda>p. p) (RustPlusTeamInfo.members ?r1)"
    by (rule map_cong) (simp_all add: fixed)
  finally have mem:
    "RustPlusTeamInfo.members (updateTeamInfo t ?r1 ati) = RustPlusTeamInfo.members ?r1"
    by simp
  show ?thesis
    by (rule RustPlusTeamInfo.equality)
       (simp_all add: mem appTeamInfo_updateTeamInfo allOnline_updateTeamInfo
          allOffline_updateTeamInfo)
qed

lemma no_change_no_transition:
  "appTeamInfoMember m = inc \<Longrightarrow>
     \<not> isGoneOnline m inc \<and> \<not> isGoneOffline m inc \<and> \<not> isGoneAlive m inc \<and>
     \<not> isGoneDead m inc \<and> \<not> isMoved m inc"
  by (auto simp: change_defs)

lemma find_distinct_ids:
  "distinct (map steamId as) \<Longrightarrow> a \<in> set as \<Longrightarrow>
     List.find (\<lambda>b. steamId b = steamId a) as = Some a"
  by (induction as) (auto simp: image_iff)

lemma joined_member_stored:
  assumes "roster_inv r" and "distinct (map steamId (AppTeamInfo.members ati))"
    and "inc \<in> set (AppTeamInfo.members ati)" and "\<not> isPlayerInTeam r (steamId inc)"
  shows "getMember (updateTeamInfo now r ati) (steamId inc) = Some (newTeamInfoMember inc)"
proof -
  have "findMember ati (steamId inc) = Some inc"
    unfolding findMember_def using assms(2,3) by (rule find_distinct_ids)
  then show ?thesis
    using assms(4)
    by (simp add: getMember_updateTeamInfo [OF assms(1)] isPlayerInTeam_getMember)
qed

theorem C4_identical_snapshot_counterexample:
  "getMember (updateTeamInfo 1000 emptyRoster (teamOf [memA])) ''A'' =
     Some (newTeamInfoMember memA) \<and>
   isGoneAfk (newTeamInfoMember memA) memA"
  by (simp add: roster_defs memA_def change_defs)

text \<open>
  C4, amended. For a well-formed roster and a team info with pairwise distinct steam ids,
  a second ingest of the same team info at the same clock reading leaves the roster as
  the first ingest left it (every field of every member), and for every member that the
  first ingest added, the stored record is the listed one, \<open>isGoneOnline\<close>,
  \<open>isGoneOffline\<close>, \<open>isGoneAlive\<close>, \<open>isGoneDead\<close> and \<open>isMoved\<close> are false against it on
  the second ingest, and \<open>isGoneAfk\<close> is true exactly when the record is online. The
  statement above is member A, added online by the first ingest: \<open>isGoneAfk\<close> is true on
  the second. Nothing is said about the predicates of a member that the roster held
  before the first ingest, whose stored record that ingest does not replace.
\<close>

theorem C4_identical_snapshot_twice:
  assumes "roster_inv r" and "distinct (map steamId (AppTeamInfo.members ati))"
  shows "updateTeamInfo now (updateTeamInfo now r ati) ati = updateTeamInfo now r ati \<and>
         (\<forall>inc \<in> set (AppTeamInfo.members ati). \<not> isPlayerInTeam r (steamId inc) \<longrightarrow>
            (\<exists>m. getMember (updateTeamInfo now r ati) (steamId inc) = Some m \<and>
                 appTeamInfoMember m = inc \<and>
                 \<not> isGoneOnline m inc \<and> \<not> isGoneOffline m inc \<and> \<not> isGoneAlive m inc \<and>
                 \<not> isGoneDead m inc \<and> \<not> isMoved m inc \<and>
                 isGoneAfk m inc = isOnline inc))"
proof (intro conjI ballI impI)
  show "updateTeamInfo now (updateTeamInfo now r ati) ati = updateTeamInfo now r ati"
    using assms(1) by (rule updateTeamInfo_twice)
next
  fix inc
  assume inc: "inc \<in> set (AppTeamInfo.members ati)" and new: "\<not> isPlayerInTeam r (steamId inc)"
  have g: "getMember (updateTeamInfo now r ati) (steamId inc) = Some (newTeamInfoMember inc)"
    using assms inc new by (rule joined_member_stored)
  have s: "appTeamInfoMember (newTeamInfoMember inc) = inc"
    by (simp add: newTeamInfoMember_def)
  have idle: "isGoneAfk (newTeamInfoMember inc) inc = isOnline inc"
    by (simp add: isGoneAfk_def isMoved_def isXChanged_def isYChanged_def newTeamInfoMember_def)
  from g s idle no_change_no_transition [OF s]
  show "\<exists>m. getMember (updateTeamInfo now r ati) (steamId inc) = Some m \<and>
            appTeamInfoMember m = inc \<and>
            \<not> isGoneOnline m inc \<and> \<not> isGoneOffline m inc \<and> \<not> isGoneAlive m inc \<and>
            \<not> isGoneDead m inc \<and> \<not> isMoved m inc \<and>
            isGoneAfk m inc = isOnline inc"
    by blast
qed

theorem C4_identical_snapshot_twice_witness:
  "roster_inv rosterA \<and>
   distinct (map steamId (AppTeamInfo.members (teamOf [memA, memB]))) \<and>
   memB \<in> set (AppTeamInfo.members (teamOf [memA, memB])) \<and>
   \<not> isPlayerInTeam rosterA (steamId memB) \<and>
   updateTeamInfo 3000 (updateTeamInfo 3000 rosterA (teamOf [memA, memB])) (teamOf [memA, memB]) =
     updateTeamInfo 3000 rosterA (teamOf [memA, memB]) \<and>
   (\<exists>m. getMember (updateTeamInfo 3000 rosterA (teamOf [memA, memB])) (steamId memB) = Some m \<and>
        appTeamInfoMember m = memB \<and>
        \<not> isGoneOnline m memB \<and> \<not> isGoneOffline m memB \<and> \<not> isGoneAlive m memB \<and>
        \<not> isGoneDead m memB \<and> \<not> isMoved m memB \<and>
        isGoneAfk m memB = isOnline memB)"
proof -
  have d: "distinct (map steamId (AppTeamInfo.members (teamOf [memA, memB])))"
    by (simp add: teamOf_def memA_def memB_def)
  have i: "memB \<in> set (AppTeamInfo.members (teamOf [memA, memB]))"
    by (simp add: teamOf_def)
  have n: "\<not> isPlayerInTeam rosterA (steamId memB)"
    by (simp add: roster_defs memA_def memB_def change_defs)
  from C4_identical_snapshot_twice [OF roster_inv_rosterA d, of 3000]
  have "updateTeamInfo 3000 (updateTeamInfo 3000 rosterA (teamOf [memA, memB]))
          (teamOf [memA, memB]) = updateTeamInfo 3000 rosterA (teamOf [memA, memB])"
    and "\<forall>inc \<in> set (AppTeamInfo.members (teamOf [memA, memB])).
           \<not> isPlayerInTeam rosterA (steamId inc) \<longrightarrow>
           (\<exists>m. getMember (updateTeamInfo 3000 rosterA (teamOf [memA, memB])) (steamId inc) = Some m \<and>
                appTeamInfoMember m = inc \<and>
                \<not> isGoneOnline m inc \<and> \<not> isGoneOffline m inc \<and> \<not> isGoneAlive m inc \<and>
                \<not> isGoneDead m inc \<and> \<not> isMoved m inc \<and>
                isGoneAfk m inc = isOnline inc)"
    by simp_all
  with roster_inv_rosterA d i n show ?thesis by blast
qed

end
